theory Spec2Isabelle
  imports Complex_Main "HOL-Library.Word" "HOL-Library.AList"
begin

section \<open>Data model of the key manager\<close>

text \<open>
  The key manager is \<^verbatim>\<open>KeyManagerRunner\<close> (declared in
  \<^verbatim>\<open>runners/key-manager/KeyManagerRunner.hpp\<close>, member functions in the C++ unit that
  follows it). Byte strings (\<^verbatim>\<open>td::Slice\<close>, \<^verbatim>\<open>td::Bits256\<close>) are lists of
  8-bit words, \<^verbatim>\<open>td::int32\<close> and \<^verbatim>\<open>td::uint32\<close> are 32-bit words (read with
  \<open>sint\<close> respectively \<open>uint\<close>; word order is the unsigned one), and the wall clock
  \<^verbatim>\<open>td::Clocks::system()\<close>, a \<^verbatim>\<open>double\<close> counting seconds, is a real number
  handed to every operation that reads it.
\<close>

type_synonym bytes = "8 word list"

text \<open>
  Every way the process is aborted: a failed \<^verbatim>\<open>CHECK\<close>, \<^verbatim>\<open>.ensure()\<close> on an
  error status, \<^verbatim>\<open>.move_as_ok()\<close> on an error result, \<^verbatim>\<open>LOG(FATAL)\<close> and
  \<^verbatim>\<open>UNREACHABLE()\<close>. None of them is reported to a caller.
\<close>

datatype crash = CHECK_failed | Ensure_failed | Move_as_ok_failed | LOG_FATAL | UNREACHABLE

text \<open>\<^verbatim>\<open>struct PrivateKey\<close>.\<close>

record PrivateKey =
  private_key :: bytes
  public_key :: bytes
  for_proxies :: bool
  for_workers :: bool
  valid_since_config_version :: "32 word"
  valid_since :: "32 word"
  valid_until :: "32 word"

text \<open>
  The TL objects of the database schema, with the fields the code reads
  (\<^verbatim>\<open>obj->private_key_\<close>, \<^verbatim>\<open>obj->for_proxies_\<close>, ...).
\<close>

record keyManagerDb_key =
  tl_private_key :: bytes
  tl_for_workers :: bool
  tl_for_proxies :: bool
  tl_valid_since_config_version :: "32 word"
  tl_valid_since_utime :: "32 word"
  tl_valid_until_utime :: "32 word"

datatype keyManagerDb_Config = keyManagerDb_configEmpty | keyManagerDb_configV1 "32 word"

text \<open>
  What the runner calls but does not define: Ed25519 under the node key
  (\<^verbatim>\<open>private_key_->sign\<close>, \<^verbatim>\<open>public_key_obj_->verify_signature\<close>), public-key
  derivation, \<^verbatim>\<open>Bits256::to_hex\<close>, the TL (de)serialisers, \<^verbatim>\<open>get_tl_magic\<close> and the
  two opcode constants. They are parameters of the model; operations that return a
  \<^verbatim>\<open>td::Result\<close> are option-valued.
\<close>

record externals =
  sign :: "bytes \<Rightarrow> bytes option"
  verify_signature :: "bytes \<Rightarrow> bytes \<Rightarrow> bool"
  get_public_key :: "bytes \<Rightarrow> bytes option"
  to_hex :: "bytes \<Rightarrow> string"
  serialize_key :: "keyManagerDb_key \<Rightarrow> bytes"
  fetch_key :: "bytes \<Rightarrow> keyManagerDb_key option"
  serialize_configV1 :: "32 word \<Rightarrow> bytes"
  fetch_Config :: "bytes \<Rightarrow> keyManagerDb_Config option"
  get_tl_magic :: "bytes \<Rightarrow> 32 word"
  getProxyPrivateKeys_ID :: "32 word"
  getWorkerPrivateKeys_ID :: "32 word"

text \<open>The part of \<^verbatim>\<open>runner_config()->root_contract_config\<close> that the runner reads.\<close>

record root_contract_config =
  version :: "32 word"
  proxy_hashes :: "bytes list"
  worker_hashes :: "bytes list"

definition has_proxy_hash :: "root_contract_config \<Rightarrow> bytes \<Rightarrow> bool" where
  "has_proxy_hash rc h = (h \<in> set (proxy_hashes rc))"

definition has_worker_hash :: "root_contract_config \<Rightarrow> bytes \<Rightarrow> bool" where
  "has_worker_hash rc h = (h \<in> set (worker_hashes rc))"

text \<open>\<^verbatim>\<open>BaseInboundConnection\<close>: the verified image hash of the remote application.\<close>

record connection =
  remote_app_hash :: bytes

text \<open>
  The members of \<^verbatim>\<open>KeyManagerRunner\<close> and the \<^verbatim>\<open>BaseRunner\<close> state it reads.
  \<open>kv\<close> is the opened key-value store, an association list so that it can be enumerated;
  \<open>connections\<close> is what \<^verbatim>\<open>get_connection\<close> looks up.
\<close>

record runner =
  private_keys :: "PrivateKey list"
  check_hashes :: bool
  kv :: "(string \<times> bytes) list"
  active_config_version :: "32 word"
  is_initialized :: bool
  runner_config :: root_contract_config
  connections :: "nat \<Rightarrow> connection option"

section \<open>The signed store\<close>

text \<open>
  \<^verbatim>\<open>get_from_db\<close>: an absent key gives the empty slice; a stored value must hold at
  least 64 bytes, the last 64 being the signature of the rest. (An I/O error of the store
  itself, which \<^verbatim>\<open>.ensure()\<close> would also turn into an abort, is not modelled here or
  in the other store operations.)
\<close>

definition get_from_db :: "externals \<Rightarrow> string \<Rightarrow> runner \<Rightarrow> crash + bytes" where
  "get_from_db ext key s =
     (case map_of (kv s) key of
        None \<Rightarrow> Inr []
      | Some config_value \<Rightarrow>
          if length config_value < 64 then Inl CHECK_failed
          else
            let signature = drop (length config_value - 64) config_value;
                val = take (length config_value - 64) config_value
            in if verify_signature ext val signature then Inr val else Inl Ensure_failed)"

text \<open>
  \<^verbatim>\<open>set_to_db\<close>: the buffer has room for the value and 64 more bytes; the copies and
  the final \<^verbatim>\<open>CHECK(!S.size())\<close> succeed exactly when the signature has 64 bytes.
\<close>

definition set_to_db :: "externals \<Rightarrow> string \<Rightarrow> bytes \<Rightarrow> runner \<Rightarrow> crash + runner" where
  "set_to_db ext key val s =
     (case sign ext val of
        None \<Rightarrow> Inl Move_as_ok_failed
      | Some signature \<Rightarrow>
          if length signature \<noteq> 64 then Inl CHECK_failed
          else Inr (s\<lparr>kv := AList.update key (val @ signature) (kv s)\<rparr>))"

definition config_to_db :: "externals \<Rightarrow> runner \<Rightarrow> crash + runner" where
  "config_to_db ext s =
     set_to_db ext ''config'' (serialize_configV1 ext (version (runner_config s))) s"

section \<open>Key generation and the maintenance cycle\<close>

text \<open>
  \<^verbatim>\<open>(td::int32)td::Clocks::system()\<close>: the conversion of a \<^verbatim>\<open>double\<close> truncates
  towards zero. Where the truncated value does not fit 32 bits the C++ conversion is
  undefined; the x86-64 instruction it compiles to then delivers the smallest
  \<^verbatim>\<open>int32\<close>, and so does the model.
\<close>

definition to_int32 :: "real \<Rightarrow> 32 word" where
  "to_int32 t =
     (if - 2147483649 < t \<and> t < 2147483648
      then word_of_int (if 0 \<le> t then \<lfloor>t\<rfloor> else \<lceil>t\<rceil>)
      else - 2147483648)"

definition key_ttl :: "32 word" where
  "key_ttl = 86400"

text \<open>The store key of a record: \<^verbatim>\<open>PSTRING() << "key_" << public_key.to_hex()\<close>.\<close>

definition db_key_name :: "externals \<Rightarrow> bytes \<Rightarrow> string" where
  "db_key_name ext pub = ''key_'' @ to_hex ext pub"

text \<open>
  \<^verbatim>\<open>generate_key\<close>. \<open>seed\<close> is the 32 bytes that \<^verbatim>\<open>td::Random::secure_bytes\<close>
  delivers, \<open>now\<close> the clock reading. The serialised object receives its arguments in
  the order of the call: private key, for_workers, for_proxies, config version, since,
  until. The sum \<^verbatim>\<open>valid_since_ + key_ttl()\<close> is an \<^verbatim>\<open>int32\<close> addition, which wraps
  around in the compiled code (and in the model) when it passes the largest \<^verbatim>\<open>int32\<close>.
\<close>

definition generate_key ::
    "externals \<Rightarrow> real \<Rightarrow> bytes \<Rightarrow> bool \<Rightarrow> bool \<Rightarrow> runner \<Rightarrow> crash + runner" where
  "generate_key ext now seed fp fw s =
     (case get_public_key ext seed of
        None \<Rightarrow> Inl Move_as_ok_failed
      | Some pub \<Rightarrow>
          let P = \<lparr>private_key = seed, public_key = pub,
                   for_proxies = fp, for_workers = fw,
                   valid_since_config_version = active_config_version s,
                   valid_since = to_int32 now,
                   valid_until = to_int32 now + key_ttl\<rparr>
          in (case set_to_db ext (db_key_name ext (public_key P))
                     (serialize_key ext
                        \<lparr>tl_private_key = private_key P,
                         tl_for_workers = for_workers P,
                         tl_for_proxies = for_proxies P,
                         tl_valid_since_config_version = valid_since_config_version P,
                         tl_valid_since_utime = valid_since P,
                         tl_valid_until_utime = valid_until P\<rparr>) s of
                Inl c \<Rightarrow> Inl c
              | Inr s' \<Rightarrow> Inr (s'\<lparr>private_keys := private_keys s' @ [P]\<rparr>)))"

text \<open>
  The loop of \<^verbatim>\<open>alarm\<close> over \<^verbatim>\<open>private_keys_\<close>: a record with
  \<^verbatim>\<open>valid_until_ < td::Clocks::system()\<close> (the \<^verbatim>\<open>int32\<close> converted to
  \<^verbatim>\<open>double\<close>) is erased from the store (\<^verbatim>\<open>kv_->erase\<close>) and from the list, any
  other is counted by role.
  The result is the list that remains, the store, \<^verbatim>\<open>w_cnt\<close> and \<^verbatim>\<open>p_cnt\<close>.
\<close>

fun sweep ::
    "externals \<Rightarrow> real \<Rightarrow> PrivateKey list \<Rightarrow> (string \<times> bytes) list \<Rightarrow> 32 word \<Rightarrow> 32 word \<Rightarrow>
     PrivateKey list \<times> (string \<times> bytes) list \<times> 32 word \<times> 32 word" where
  "sweep ext now [] db w_cnt p_cnt = ([], db, w_cnt, p_cnt)"
| "sweep ext now (k # ks) db w_cnt p_cnt =
     (if real_of_int (sint (valid_until k)) < now
      then sweep ext now ks (AList.delete (db_key_name ext (public_key k)) db) w_cnt p_cnt
      else
        (let rest = sweep ext now ks db
                      (if for_workers k then w_cnt + 1 else w_cnt)
                      (if for_proxies k then p_cnt + 1 else p_cnt)
         in (k # fst rest, snd rest)))"

text \<open>
  The statements of \<^verbatim>\<open>alarm\<close> after its guard, inside one store transaction (the
  store has a single writer, so the transaction and the final flush do not show in the
  state): advance and persist the config version, sweep, then generate a worker-only key
  with \<open>seed_w\<close> and a proxy-only key with \<open>seed_p\<close> where the count is zero. One clock
  reading \<open>now\<close> stands for the readings of one cycle.
\<close>

definition alarm_cycle ::
    "externals \<Rightarrow> real \<Rightarrow> bytes \<Rightarrow> bytes \<Rightarrow> runner \<Rightarrow> crash + runner" where
  "alarm_cycle ext now seed_w seed_p s =
     (case (if active_config_version s < version (runner_config s)
            then config_to_db ext (s\<lparr>active_config_version := version (runner_config s)\<rparr>)
            else Inr s) of
        Inl c \<Rightarrow> Inl c
      | Inr s1 \<Rightarrow>
          (case sweep ext now (private_keys s1) (kv s1) 0 0 of
             (ks, db, w_cnt, p_cnt) \<Rightarrow>
               (case (if w_cnt = 0
                      then generate_key ext now seed_w False True (s1\<lparr>private_keys := ks, kv := db\<rparr>)
                      else Inr (s1\<lparr>private_keys := ks, kv := db\<rparr>)) of
                  Inl c \<Rightarrow> Inl c
                | Inr s2 \<Rightarrow>
                    (if p_cnt = 0 then generate_key ext now seed_p True False s2 else Inr s2))))"

text \<open>
  \<^verbatim>\<open>alarm\<close>: the guard is \<^verbatim>\<open>if (is_initialized()) { return; }\<close>, as the source has it.
  The call of \<^verbatim>\<open>BaseRunner::alarm()\<close> before it belongs to the base class and is not
  part of the model.
\<close>

definition alarm :: "externals \<Rightarrow> real \<Rightarrow> bytes \<Rightarrow> bytes \<Rightarrow> runner \<Rightarrow> crash + runner" where
  "alarm ext now seed_w seed_p s =
     (if is_initialized s then Inr s else alarm_cycle ext now seed_w seed_p s)"

section \<open>The RPC surface\<close>

datatype error_code = ErrorCode_error | ErrorCode_failure

text \<open>What \<^verbatim>\<open>receive_query\<close> does to its promise, when it does anything.\<close>

datatype promise_result =
    Set_error error_code string
  | Set_value "(32 word \<times> bytes) list"

text \<open>
  \<^verbatim>\<open>receive_query\<close>. The result is the fulfilment of the promise (\<open>None\<close> when the
  function returns without touching it) and the runner's state afterwards.
\<close>

definition receive_query ::
    "externals \<Rightarrow> runner \<Rightarrow> nat \<Rightarrow> bytes \<Rightarrow> promise_result option \<times> runner" where
  "receive_query ext s connection_id query =
     (if \<not> is_initialized s then (None, s)
      else
        (case connections s connection_id of
           None \<Rightarrow> (None, s)
         | Some conn \<Rightarrow>
             let magic = get_tl_magic ext query in
             if magic = getProxyPrivateKeys_ID ext then
               (if check_hashes s \<and> \<not> has_proxy_hash (runner_config s) (remote_app_hash conn)
                then (Some (Set_error ErrorCode_error ''unknown proxy hash''), s)
                else (Some (Set_value (map (\<lambda>k. (valid_until k, private_key k))
                                          (filter for_proxies (private_keys s)))), s))
             else if magic = getWorkerPrivateKeys_ID ext then
               (if check_hashes s \<and> \<not> has_worker_hash (runner_config s) (remote_app_hash conn)
                then (Some (Set_error ErrorCode_error ''unknown worker hash''), s)
                else (Some (Set_value (map (\<lambda>k. (valid_until k, private_key k))
                                          (filter for_workers (private_keys s)))), s))
             else (Some (Set_error ErrorCode_failure ''unknown query magic''), s)))"

section \<open>Recovery from the store\<close>

text \<open>
  \<^verbatim>\<open>td::split(key, '_')\<close>: the part before the first underscore and the part after it
  (empty when there is none).
\<close>

definition split_key :: "string \<Rightarrow> string \<times> string" where
  "split_key key =
     (takeWhile (\<lambda>c. c \<noteq> CHR ''_'') key, drop 1 (dropWhile (\<lambda>c. c \<noteq> CHR ''_'') key))"

text \<open>
  \<^verbatim>\<open>process_db_key\<close>. The comparisons cast the \<^verbatim>\<open>int32\<close> fields to
  \<^verbatim>\<open>uint32\<close>: the word order for the config version, \<open>uint\<close> against the clock.
\<close>

definition process_db_key ::
    "externals \<Rightarrow> real \<Rightarrow> string \<Rightarrow> bytes \<Rightarrow> runner \<Rightarrow> crash + runner" where
  "process_db_key ext now key0 value0 s =
     (let key_type = fst (split_key key0); key = snd (split_key key0) in
      if length value0 < 64 then Inl CHECK_failed
      else
        let signature = drop (length value0 - 64) value0;
            val = take (length value0 - 64) value0
        in
        if \<not> verify_signature ext val signature then Inl Ensure_failed
        else if key_type = ''key'' then
          (case fetch_key ext val of
             None \<Rightarrow> Inl Move_as_ok_failed
           | Some obj \<Rightarrow>
               (case get_public_key ext (tl_private_key obj) of
                  None \<Rightarrow> Inl Move_as_ok_failed
                | Some pub \<Rightarrow>
                    if to_hex ext pub \<noteq> key then Inl CHECK_failed
                    else if active_config_version s < tl_valid_since_config_version obj
                    then Inl CHECK_failed
                    else if now < real_of_int (uint (tl_valid_until_utime obj))
                    then Inr (s\<lparr>private_keys := private_keys s @
                                 [\<lparr>private_key = tl_private_key obj, public_key = pub,
                                   for_proxies = tl_for_proxies obj,
                                   for_workers = tl_for_workers obj,
                                   valid_since_config_version = tl_valid_since_config_version obj,
                                   valid_since = tl_valid_since_utime obj,
                                   valid_until = tl_valid_until_utime obj\<rparr>]\<rparr>)
                    else Inr s))
        else if key_type = ''config'' then Inr s
        else Inl LOG_FATAL)"

text \<open>The enumeration \<^verbatim>\<open>snap->for_each\<close> of the recovery scan, stopping at the first crash.\<close>

fun for_each_db ::
    "externals \<Rightarrow> real \<Rightarrow> (string \<times> bytes) list \<Rightarrow> runner \<Rightarrow> crash + runner" where
  "for_each_db ext now [] s = Inr s"
| "for_each_db ext now ((key, val) # rest) s =
     (case process_db_key ext now key val s of
        Inl c \<Rightarrow> Inl c
      | Inr s' \<Rightarrow> for_each_db ext now rest s')"

text \<open>
  \<^verbatim>\<open>custom_initialize\<close>, up to the registration of the HTTP handlers: \<open>db\<close> is the
  content of the store that \<^verbatim>\<open>td::RocksDb::open\<close> opens. A \<^verbatim>\<open>config\<close> read of
  size zero is the first boot.
\<close>

definition custom_initialize ::
    "externals \<Rightarrow> real \<Rightarrow> (string \<times> bytes) list \<Rightarrow> runner \<Rightarrow> crash + runner" where
  "custom_initialize ext now db s0 =
     (let s = s0\<lparr>kv := db\<rparr> in
      (case get_from_db ext ''config'' s of
        Inl c \<Rightarrow> Inl c
      | Inr val \<Rightarrow>
          (case (if 0 < length val then
                   (case fetch_Config ext val of
                      None \<Rightarrow> Inl Move_as_ok_failed
                    | Some keyManagerDb_configEmpty \<Rightarrow> Inl UNREACHABLE
                    | Some (keyManagerDb_configV1 root_contract_version) \<Rightarrow>
                        if version (runner_config s) < root_contract_version
                        then Inl CHECK_failed
                        else Inr (s\<lparr>active_config_version := root_contract_version\<rparr>))
                 else Inr (s\<lparr>active_config_version := 0\<rparr>)) of
             Inl c \<Rightarrow> Inl c
           | Inr s1 \<Rightarrow> for_each_db ext now (kv s1) s1)))"

section \<open>The attested tunnel\<close>

text \<open>
  \<^verbatim>\<open>tee/cocoon/utils.cpp\<close>. A \<^verbatim>\<open>td::Status\<close> error is a code and a message; a
  \<^verbatim>\<open>td::IPAddress\<close> is read through \<^verbatim>\<open>get_ip_str\<close> and \<^verbatim>\<open>get_port\<close>. Quotes,
  user claims, attestation data, raw pipes and SSL streams are opaque (type variables).
\<close>

datatype td_error = Error int string

record IPAddress =
  get_ip_str :: string
  get_port :: int

record ('a, 'c) AttestedPeerInfo =
  attestation_data :: 'a
  user_claims :: 'c
  source_ip :: string
  source_port :: int
  destination_ip :: string
  destination_port :: int

definition make_attested_peer_info ::
    "'a \<Rightarrow> 'c \<Rightarrow> IPAddress \<Rightarrow> IPAddress \<Rightarrow> ('a, 'c) AttestedPeerInfo" where
  "make_attested_peer_info attestation claims source destination =
     \<lparr>attestation_data = attestation,
      user_claims = claims,
      source_ip = get_ip_str source,
      source_port = get_port source,
      destination_ip = get_ip_str destination,
      destination_port = get_port destination\<rparr>"

text \<open>
  \<^verbatim>\<open>PolicyHelper::validate\<close>: the result of the inner policy, returned as it is, and
  what the call hands to \<^verbatim>\<open>peer_info_promise_\<close> (\<^verbatim>\<open>set_value\<close> as \<open>Inr\<close>,
  \<^verbatim>\<open>set_error\<close> as \<open>Inl\<close>).
\<close>

definition PolicyHelper_validate ::
    "('q \<Rightarrow> 'c \<Rightarrow> td_error + 'a) \<Rightarrow> IPAddress \<Rightarrow> IPAddress \<Rightarrow> 'q \<Rightarrow> 'c \<Rightarrow>
     (td_error + 'a) \<times> (td_error + ('a, 'c) AttestedPeerInfo)" where
  "PolicyHelper_validate inner_policy source destination quote claims =
     (let r_attestation = inner_policy quote claims in
      (case r_attestation of
         Inr attestation \<Rightarrow>
           (r_attestation, Inr (make_attested_peer_info attestation claims source destination))
       | Inl e \<Rightarrow> (r_attestation, Inl e)))"

text \<open>
  The pipe that \<^verbatim>\<open>TlsPipeWorker::start_up\<close> makes over the buffers of the SSL stream
  helper, which sits on the raw pipe; \<^verbatim>\<open>extract_fd\<close> hands it out.
\<close>

datatype ('p, 's) tls_pipe = Tls_pipe 'p 's

text \<open>
  \<^verbatim>\<open>wrap_tls_client\<close> and \<^verbatim>\<open>wrap_tls_server\<close>, one coroutine each, with the same
  steps. What the TLS library and the actor runtime do during the call is given:
  \<open>ssl_stream\<close> is the result of \<^verbatim>\<open>create_client_ssl_stream\<close> (respectively
  \<^verbatim>\<open>create_server_ssl_stream\<close>), \<open>verify_call\<close> the quote and claims with which the
  handshake's verify callback calls the wrapped policy (\<open>None\<close> when it never does, and
  then the bridge task is never fulfilled by this code), \<open>ask_error\<close> the failure of
  \<^verbatim>\<open>ask(proxy, &TlsPipeWorker::extract_fd)\<close> when there is one. Each \<^verbatim>\<open>co_await\<close>
  passes an error on. The result is \<open>None\<close> when the coroutine does not finish.
\<close>

definition wrap_tls_client ::
    "(td_error + 's) \<Rightarrow> ('q \<times> 'c) option \<Rightarrow> td_error option \<Rightarrow>
     'p \<Rightarrow> ('q \<Rightarrow> 'c \<Rightarrow> td_error + 'a) \<Rightarrow> IPAddress \<Rightarrow> IPAddress \<Rightarrow>
     (td_error + ('p, 's) tls_pipe \<times> ('a, 'c) AttestedPeerInfo) option" where
  "wrap_tls_client ssl_stream verify_call ask_error pipe policy source destination =
     (case ssl_stream of
        Inl e \<Rightarrow> Some (Inl e)
      | Inr stream \<Rightarrow>
          (case verify_call of
             None \<Rightarrow> None
           | Some (quote, claims) \<Rightarrow>
               (case snd (PolicyHelper_validate policy source destination quote claims) of
                  Inl e \<Rightarrow> Some (Inl e)
                | Inr peer_info \<Rightarrow>
                    (case ask_error of
                       Some e \<Rightarrow> Some (Inl e)
                     | None \<Rightarrow> Some (Inr (Tls_pipe pipe stream, peer_info))))))"

definition wrap_tls_server ::
    "(td_error + 's) \<Rightarrow> ('q \<times> 'c) option \<Rightarrow> td_error option \<Rightarrow>
     'p \<Rightarrow> ('q \<Rightarrow> 'c \<Rightarrow> td_error + 'a) \<Rightarrow> IPAddress \<Rightarrow> IPAddress \<Rightarrow>
     (td_error + ('p, 's) tls_pipe \<times> ('a, 'c) AttestedPeerInfo) option" where
  "wrap_tls_server ssl_stream verify_call ask_error pipe policy source destination =
     (case ssl_stream of
        Inl e \<Rightarrow> Some (Inl e)
      | Inr stream \<Rightarrow>
          (case verify_call of
             None \<Rightarrow> None
           | Some (quote, claims) \<Rightarrow>
               (case snd (PolicyHelper_validate policy source destination quote claims) of
                  Inl e \<Rightarrow> Some (Inl e)
                | Inr peer_info \<Rightarrow>
                    (case ask_error of
                       Some e \<Rightarrow> Some (Inl e)
                     | None \<Rightarrow> Some (Inr (Tls_pipe pipe stream, peer_info))))))"

section \<open>A concrete instance of the external operations\<close>

text \<open>
  To run the model on inputs: the "signature" of a message is 64 copies of its length
  byte, the public key of a seed is the seed with every byte incremented, a serialised
  key record is five header bytes followed by the private key, hex is upper case.
\<close>

definition hex_digit :: "8 word \<Rightarrow> char" where
  "hex_digit d = ''0123456789ABCDEF'' ! unat d"

definition demo_externals :: externals where
  "demo_externals =
     \<lparr>sign = (\<lambda>m. Some (replicate 64 (of_nat (length m)))),
      verify_signature = (\<lambda>m sg. sg = replicate 64 (of_nat (length m))),
      get_public_key = (\<lambda>seed. Some (map (\<lambda>b. b + 1) seed)),
      to_hex = (\<lambda>bs. concat (map (\<lambda>b. [hex_digit (drop_bit 4 b), hex_digit (take_bit 4 b)]) bs)),
      serialize_key = (\<lambda>k. [ucast (tl_valid_since_config_version k),
                             (if tl_for_workers k then 1 else 0),
                             (if tl_for_proxies k then 1 else 0),
                             ucast (tl_valid_since_utime k),
                             ucast (tl_valid_until_utime k)] @ tl_private_key k),
      fetch_key = (\<lambda>bs. case bs of
                      v # w # p # a # b # pk \<Rightarrow>
                        Some \<lparr>tl_private_key = pk, tl_for_workers = (w \<noteq> 0),
                              tl_for_proxies = (p \<noteq> 0),
                              tl_valid_since_config_version = ucast v,
                              tl_valid_since_utime = ucast a,
                              tl_valid_until_utime = ucast b\<rparr>
                    | _ \<Rightarrow> None),
      serialize_configV1 = (\<lambda>v. [ucast v]),
      fetch_Config = (\<lambda>bs. case bs of [] \<Rightarrow> None
                                     | b # _ \<Rightarrow> Some (keyManagerDb_configV1 (ucast b))),
      get_tl_magic = (\<lambda>q. case q of [] \<Rightarrow> 0 | b # _ \<Rightarrow> ucast b),
      getProxyPrivateKeys_ID = 1,
      getWorkerPrivateKeys_ID = 2\<rparr>"

text \<open>
  A runner to go with it: one key for both roles that was valid until second 1000 and
  its store entry, hash checking enabled, connection 1 from an allowed proxy image and
  connection 2 from an allowed worker image.
\<close>

definition demo_old_key :: PrivateKey where
  "demo_old_key =
     \<lparr>private_key = [1, 2], public_key = [2, 3], for_proxies = True, for_workers = True,
      valid_since_config_version = 0, valid_since = 0, valid_until = 1000\<rparr>"

definition demo_runner :: runner where
  "demo_runner =
     \<lparr>private_keys = [demo_old_key],
      check_hashes = True,
      kv = [(''key_0203'', [0, 1, 1, 0, 232, 1, 2] @ replicate 64 7)],
      active_config_version = 0,
      is_initialized = True,
      runner_config = \<lparr>version = 0, proxy_hashes = [[17]], worker_hashes = [[34]]\<rparr>,
      connections = (\<lambda>c. if c = 1 then Some \<lparr>remote_app_hash = [17]\<rparr>
                         else if c = 2 then Some \<lparr>remote_app_hash = [34]\<rparr> else None)\<rparr>"

text \<open>
  An attestation policy for the tunnel: quotes are numbers, quote 0 is rejected, any other
  quote is accepted with its successor as attestation data.
\<close>

definition demo_policy :: "nat \<Rightarrow> string \<Rightarrow> td_error + nat" where
  "demo_policy quote claims =
     (if quote = 0 then Inl (Error 1 ''quote rejected'') else Inr (Suc quote))"

text \<open>
  The same runner after the statements of one maintenance cycle at second 2000 with the
  seeds \<open>[7]\<close> and \<open>[171]\<close>: the old key swept, a worker-only and a proxy-only key
  generated.
\<close>

definition demo_runner_swept :: runner where
  "demo_runner_swept =
     demo_runner
       \<lparr>private_keys :=
          [\<lparr>private_key = [7], public_key = [8], for_proxies = False, for_workers = True,
            valid_since_config_version = 0, valid_since = 2000, valid_until = 88400\<rparr>,
           \<lparr>private_key = [171], public_key = [172], for_proxies = True, for_workers = False,
            valid_since_config_version = 0, valid_since = 2000, valid_until = 88400\<rparr>],
        kv := [(''key_08'', [0, 1, 0, 208, 80, 7] @ replicate 64 6),
               (''key_AC'', [0, 0, 1, 208, 80, 171] @ replicate 64 6)]\<rparr>"

section \<open>Properties of the sweep and of key generation\<close>

lemma sweep_keys:
  "fst (sweep ext now ks db w p) = filter (\<lambda>k. \<not> real_of_int (sint (valid_until k)) < now) ks"
  by (induction ks arbitrary: db w p) (simp_all add: Let_def)

lemma sweep_db_absent:
  "map_of db name = None \<Longrightarrow> map_of (fst (snd (sweep ext now ks db w p))) name = None"
  by (induction ks arbitrary: db w p) (simp_all add: Let_def delete_conv')

lemma sweep_db_erased:
  "k \<in> set ks \<Longrightarrow> real_of_int (sint (valid_until k)) < now \<Longrightarrow>
   map_of (fst (snd (sweep ext now ks db w p))) (db_key_name ext (public_key k)) = None"
proof (induction ks arbitrary: db w p)
  case Nil
  then show ?case by simp
next
  case (Cons a ks)
  show ?case
  proof (cases "a = k")
    case True
    with Cons.prems show ?thesis
      by (simp add: sweep_db_absent delete_conv')
  next
    case False
    with Cons.prems have "k \<in> set ks" by simp
    from Cons.IH [OF this Cons.prems(2)] show ?thesis
      by (simp add: Let_def)
  qed
qed

lemma set_to_db_Inr:
  "set_to_db ext key val s = Inr s' \<Longrightarrow>
   \<exists>sg. sign ext val = Some sg \<and> length sg = 64 \<and> s' = s\<lparr>kv := AList.update key (val @ sg) (kv s)\<rparr>"
  by (auto simp: set_to_db_def split: option.splits if_splits)

lemma generate_key_Inr:
  assumes "generate_key ext now seed fp fw s = Inr s'"
  shows "\<exists>pub sg. get_public_key ext seed = Some pub
           \<and> private_keys s' = private_keys s @
               [\<lparr>private_key = seed, public_key = pub, for_proxies = fp, for_workers = fw,
                 valid_since_config_version = active_config_version s,
                 valid_since = to_int32 now, valid_until = to_int32 now + key_ttl\<rparr>]
           \<and> kv s' = AList.update (db_key_name ext pub)
               (serialize_key ext
                  \<lparr>tl_private_key = seed, tl_for_workers = fw, tl_for_proxies = fp,
                   tl_valid_since_config_version = active_config_version s,
                   tl_valid_since_utime = to_int32 now,
                   tl_valid_until_utime = to_int32 now + key_ttl\<rparr> @ sg) (kv s)"
  using assms
  by (auto simp: generate_key_def Let_def split: option.splits sum.splits dest!: set_to_db_Inr)

lemma fresh_valid_until:
  assumes "0 \<le> now" and "now < 2147397248"
  shows "now < real_of_int (sint (to_int32 now + key_ttl))"
proof -
  have fl: "0 \<le> \<lfloor>now\<rfloor>" "\<lfloor>now\<rfloor> < 2147397248"
    using assms by (auto simp: floor_less_iff)
  have "to_int32 now + key_ttl = (word_of_int \<lfloor>now\<rfloor> + word_of_int 86400 :: 32 word)"
    using assms by (simp add: to_int32_def key_ttl_def)
  also have "\<dots> = word_of_int (\<lfloor>now\<rfloor> + 86400)"
    by (simp only: wi_hom_add)
  finally have "sint (to_int32 now + key_ttl) = signed_take_bit 31 (\<lfloor>now\<rfloor> + 86400)"
    by (simp only: sint_sbintrunc') simp
  also have "\<dots> = \<lfloor>now\<rfloor> + 86400"
    using fl by (intro signed_take_bit_int_eq_self) simp_all
  finally have "sint (to_int32 now + key_ttl) = \<lfloor>now\<rfloor> + 86400" .
  moreover have "now < real_of_int (\<lfloor>now\<rfloor> + 86400)" by linarith
  ultimately show ?thesis by simp
qed

lemma config_to_db_Inr:
  "config_to_db ext s = Inr s' \<Longrightarrow>
   private_keys s' = private_keys s \<and> active_config_version s' = active_config_version s"
  by (auto simp: config_to_db_def dest!: set_to_db_Inr)

lemma alarm_cycle_Inr:
  assumes "alarm_cycle ext now seed_w seed_p s = Inr s'"
  shows "\<exists>s1 s2.
    private_keys s1 = private_keys s
    \<and> (s2 = s1\<lparr>private_keys := fst (sweep ext now (private_keys s1) (kv s1) 0 0),
               kv := fst (snd (sweep ext now (private_keys s1) (kv s1) 0 0))\<rparr>
     \<or> generate_key ext now seed_w False True
          (s1\<lparr>private_keys := fst (sweep ext now (private_keys s1) (kv s1) 0 0),
               kv := fst (snd (sweep ext now (private_keys s1) (kv s1) 0 0))\<rparr>) = Inr s2)
    \<and> (s' = s2 \<or> generate_key ext now seed_p True False s2 = Inr s')"
proof -
  define c where "c = (if active_config_version s < version (runner_config s)
            then config_to_db ext (s\<lparr>active_config_version := version (runner_config s)\<rparr>)
            else Inr s)"
  from assms obtain s1 where s1: "c = Inr s1"
    by (cases c) (simp_all add: alarm_cycle_def c_def [symmetric])
  have pk: "private_keys s1 = private_keys s"
    using s1 by (auto simp: c_def split: if_splits dest: config_to_db_Inr)
  define r where "r = sweep ext now (private_keys s1) (kv s1) 0 0"
  define s1' where "s1' = s1\<lparr>private_keys := fst r, kv := fst (snd r)\<rparr>"
  define g where "g = (if fst (snd (snd r)) = 0
                       then generate_key ext now seed_w False True s1' else Inr s1')"
  have unf: "alarm_cycle ext now seed_w seed_p s =
     (case g of Inl e \<Rightarrow> Inl e
      | Inr s2 \<Rightarrow> if snd (snd (snd r)) = 0 then generate_key ext now seed_p True False s2 else Inr s2)"
    using s1 unfolding g_def s1'_def r_def
    by (simp add: alarm_cycle_def c_def [symmetric] case_prod_beta)
  from assms unf obtain s2 where s2: "g = Inr s2"
    by (cases g) simp_all
  from assms unf s2 have last: "s' = s2 \<or> generate_key ext now seed_p True False s2 = Inr s'"
    by (auto split: if_splits)
  from s2 have mid: "s2 = s1' \<or> generate_key ext now seed_w False True s1' = Inr s2"
    by (auto simp: g_def split: if_splits)
  show ?thesis
    using pk mid last unfolding s1'_def r_def by blast
qed


lemma generate_key_store:
  assumes "generate_key ext now seed fp fw s = Inr s'"
  shows "\<exists>pub. get_public_key ext seed = Some pub
           \<and> (\<forall>name. name \<noteq> db_key_name ext pub \<longrightarrow> map_of (kv s') name = map_of (kv s) name)"
  using generate_key_Inr [OF assms] by (auto simp: update_conv')

lemma generate_key_live:
  assumes "generate_key ext now seed fp fw s = Inr s'"
      and "0 \<le> now" and "now < 2147397248"
      and "\<forall>k \<in> set (private_keys s). \<not> real_of_int (sint (valid_until k)) < now"
  shows "\<forall>k \<in> set (private_keys s'). \<not> real_of_int (sint (valid_until k)) < now"
  using generate_key_Inr [OF assms(1)] fresh_valid_until [OF assms(2,3)] assms(4)
  by auto

lemma alarm_cycle_live:
  assumes "alarm_cycle ext now seed_w seed_p s = Inr s'"
      and "0 \<le> now" and "now < 2147397248"
  shows "\<forall>k \<in> set (private_keys s'). \<not> real_of_int (sint (valid_until k)) < now"
proof -
  from alarm_cycle_Inr [OF assms(1)] obtain s1 s2 where
    mid: "s2 = s1\<lparr>private_keys := fst (sweep ext now (private_keys s1) (kv s1) 0 0),
               kv := fst (snd (sweep ext now (private_keys s1) (kv s1) 0 0))\<rparr>
     \<or> generate_key ext now seed_w False True
          (s1\<lparr>private_keys := fst (sweep ext now (private_keys s1) (kv s1) 0 0),
               kv := fst (snd (sweep ext now (private_keys s1) (kv s1) 0 0))\<rparr>) = Inr s2"
    and last: "s' = s2 \<or> generate_key ext now seed_p True False s2 = Inr s'"
    by blast
  let ?s = "s1\<lparr>private_keys := fst (sweep ext now (private_keys s1) (kv s1) 0 0),
               kv := fst (snd (sweep ext now (private_keys s1) (kv s1) 0 0))\<rparr>"
  have a: "\<forall>k \<in> set (private_keys ?s). \<not> real_of_int (sint (valid_until k)) < now"
    by (simp add: sweep_keys)
  have b: "\<forall>k \<in> set (private_keys s2). \<not> real_of_int (sint (valid_until k)) < now"
    using mid a generate_key_live [OF _ assms(2,3) a] by blast
  show ?thesis
    using last b generate_key_live [OF _ assms(2,3) b] by blast
qed

lemma alarm_cycle_store_erased:
  assumes "alarm_cycle ext now seed_w seed_p s = Inr s'"
      and "k \<in> set (private_keys s)"
      and "real_of_int (sint (valid_until k)) < now"
      and "\<forall>pub. get_public_key ext seed_w = Some pub \<longrightarrow> to_hex ext pub \<noteq> to_hex ext (public_key k)"
      and "\<forall>pub. get_public_key ext seed_p = Some pub \<longrightarrow> to_hex ext pub \<noteq> to_hex ext (public_key k)"
  shows "map_of (kv s') (db_key_name ext (public_key k)) = None"
proof -
  from alarm_cycle_Inr [OF assms(1)] obtain s1 s2 where
    pk: "private_keys s1 = private_keys s"
    and mid: "s2 = s1\<lparr>private_keys := fst (sweep ext now (private_keys s1) (kv s1) 0 0),
               kv := fst (snd (sweep ext now (private_keys s1) (kv s1) 0 0))\<rparr>
     \<or> generate_key ext now seed_w False True
          (s1\<lparr>private_keys := fst (sweep ext now (private_keys s1) (kv s1) 0 0),
               kv := fst (snd (sweep ext now (private_keys s1) (kv s1) 0 0))\<rparr>) = Inr s2"
    and last: "s' = s2 \<or> generate_key ext now seed_p True False s2 = Inr s'"
    by blast
  let ?n = "db_key_name ext (public_key k)"
  let ?s = "s1\<lparr>private_keys := fst (sweep ext now (private_keys s1) (kv s1) 0 0),
               kv := fst (snd (sweep ext now (private_keys s1) (kv s1) 0 0))\<rparr>"
  have a: "map_of (kv ?s) ?n = None"
    using sweep_db_erased [of k "private_keys s1" now ext "kv s1" 0 0] assms(2,3) pk by simp
  have b: "map_of (kv s2) ?n = None"
  proof (rule disjE [OF mid])
    assume "s2 = ?s" then show ?thesis using a by simp
  next
    assume "generate_key ext now seed_w False True ?s = Inr s2"
    from generate_key_store [OF this] obtain pub where
      g: "get_public_key ext seed_w = Some pub"
      and keep: "\<forall>name. name \<noteq> db_key_name ext pub \<longrightarrow> map_of (kv s2) name = map_of (kv ?s) name"
      by blast
    from assms(4) g have "to_hex ext pub \<noteq> to_hex ext (public_key k)" by blast
    then have "?n \<noteq> db_key_name ext pub" by (simp add: db_key_name_def)
    with keep have "map_of (kv s2) ?n = map_of (kv ?s) ?n" by blast
    with a show ?thesis by simp
  qed
  show ?thesis
  proof (rule disjE [OF last])
    assume "s' = s2" then show ?thesis using b by simp
  next
    assume "generate_key ext now seed_p True False s2 = Inr s'"
    from generate_key_store [OF this] obtain pub where
      g: "get_public_key ext seed_p = Some pub"
      and keep: "\<forall>name. name \<noteq> db_key_name ext pub \<longrightarrow> map_of (kv s') name = map_of (kv s2) name"
      by blast
    from assms(5) g have "to_hex ext pub \<noteq> to_hex ext (public_key k)" by blast
    then have "?n \<noteq> db_key_name ext pub" by (simp add: db_key_name_def)
    with keep have "map_of (kv s') ?n = map_of (kv s2) ?n" by blast
    with b show ?thesis by simp
  qed
qed

lemma receive_query_value:
  assumes "fst (receive_query ext t cid q) = Some (Set_value pks)"
  shows "set pks \<subseteq> (\<lambda>k. (valid_until k, private_key k)) ` set (private_keys t)"
  using assms
  by (auto simp: receive_query_def Let_def split: if_splits option.splits)

lemma sweep_w_cnt:
  "fst (snd (snd (sweep ext now ks db w p))) =
     w + of_nat (length (filter
            (\<lambda>k. \<not> real_of_int (sint (valid_until k)) < now \<and> for_workers k) ks))"
  by (induction ks arbitrary: db w p) (simp_all add: Let_def)

lemma sweep_p_cnt:
  "snd (snd (snd (sweep ext now ks db w p))) =
     p + of_nat (length (filter
            (\<lambda>k. \<not> real_of_int (sint (valid_until k)) < now \<and> for_proxies k) ks))"
  by (induction ks arbitrary: db w p) (simp_all add: Let_def)

lemma count_word_zero:
  assumes "length ks < 2 ^ 32"
  shows "(of_nat (length (filter f ks)) = (0 :: 32 word)) = (filter f ks = [])"
proof -
  have le: "length (filter f ks) \<le> length ks"
    by (rule length_filter_le)
  have "(of_nat (length (filter f ks)) = (0 :: 32 word)) = (2 ^ 32 dvd length (filter f ks))"
    by (simp add: word_of_nat_eq_0_iff)
  also have "\<dots> = (length (filter f ks) = 0)"
  proof
    assume d: "2 ^ 32 dvd length (filter f ks)"
    show "length (filter f ks) = 0"
    proof (rule ccontr)
      assume "length (filter f ks) \<noteq> 0"
      with d have "(2 :: nat) ^ 32 \<le> length (filter f ks)" by (intro dvd_imp_le) simp_all
      moreover from le assms have "length (filter f ks) < 2 ^ 32" by (rule le_less_trans)
      ultimately show False by linarith
    qed
  qed simp
  finally show ?thesis by simp
qed

text \<open>
  The statements after the guard do cover both roles: what they leave is the records that
  are not swept, then a worker-only key where none of those serves workers, then a
  proxy-only key where none of them serves proxies.
\<close>

lemma alarm_cycle_ledger:
  assumes "alarm_cycle ext now seed_w seed_p s = Inr s'"
      and "length (private_keys s) < 2 ^ 32"
  shows "\<exists>gw gp.
     private_keys s' =
       filter (\<lambda>k. \<not> real_of_int (sint (valid_until k)) < now) (private_keys s) @ gw @ gp
     \<and> (if filter (\<lambda>k. \<not> real_of_int (sint (valid_until k)) < now \<and> for_workers k)
             (private_keys s) = []
         then \<exists>k. gw = [k] \<and> for_workers k \<and> \<not> for_proxies k \<and> private_key k = seed_w
                  \<and> valid_until k = to_int32 now + key_ttl
         else gw = [])
     \<and> (if filter (\<lambda>k. \<not> real_of_int (sint (valid_until k)) < now \<and> for_proxies k)
             (private_keys s) = []
         then \<exists>k. gp = [k] \<and> for_proxies k \<and> \<not> for_workers k \<and> private_key k = seed_p
                  \<and> valid_until k = to_int32 now + key_ttl
         else gp = [])"
proof -
  let ?live = "\<lambda>k. \<not> real_of_int (sint (valid_until k)) < now"
  let ?W = "filter (\<lambda>k. \<not> real_of_int (sint (valid_until k)) < now \<and> for_workers k) (private_keys s)"
  let ?P = "filter (\<lambda>k. \<not> real_of_int (sint (valid_until k)) < now \<and> for_proxies k) (private_keys s)"
  define c where "c = (if active_config_version s < version (runner_config s)
            then config_to_db ext (s\<lparr>active_config_version := version (runner_config s)\<rparr>)
            else Inr s)"
  from assms(1) obtain s1 where s1: "c = Inr s1"
    by (cases c) (simp_all add: alarm_cycle_def c_def [symmetric])
  have pk: "private_keys s1 = private_keys s"
    using s1 by (auto simp: c_def split: if_splits dest: config_to_db_Inr)
  define r where "r = sweep ext now (private_keys s1) (kv s1) 0 0"
  define s1' where "s1' = s1\<lparr>private_keys := fst r, kv := fst (snd r)\<rparr>"
  define g where "g = (if fst (snd (snd r)) = 0
                       then generate_key ext now seed_w False True s1' else Inr s1')"
  have unf: "alarm_cycle ext now seed_w seed_p s =
     (case g of Inl e \<Rightarrow> Inl e
      | Inr s2 \<Rightarrow> if snd (snd (snd r)) = 0 then generate_key ext now seed_p True False s2 else Inr s2)"
    using s1 unfolding g_def s1'_def r_def
    by (simp add: alarm_cycle_def c_def [symmetric] case_prod_beta)
  from assms(1) unf obtain s2 where s2: "g = Inr s2"
    by (cases g) simp_all
  have kept: "private_keys s1' = filter ?live (private_keys s)"
    by (simp add: s1'_def r_def sweep_keys pk)
  have w0: "(fst (snd (snd r)) = 0) = (?W = [])"
    using count_word_zero [OF assms(2)] by (simp add: r_def sweep_w_cnt pk)
  have p0: "(snd (snd (snd r)) = 0) = (?P = [])"
    using count_word_zero [OF assms(2)] by (simp add: r_def sweep_p_cnt pk)
  have "\<exists>gw. private_keys s2 = filter ?live (private_keys s) @ gw \<and>
    (if ?W = []
     then \<exists>k. gw = [k] \<and> for_workers k \<and> \<not> for_proxies k \<and> private_key k = seed_w
                  \<and> valid_until k = to_int32 now + key_ttl
     else gw = [])"
  proof (cases "fst (snd (snd r)) = 0")
    case True
    with s2 have "generate_key ext now seed_w False True s1' = Inr s2" by (simp add: g_def)
    from generate_key_Inr [OF this] obtain pub where
      "private_keys s2 = private_keys s1' @
               [\<lparr>private_key = seed_w, public_key = pub, for_proxies = False, for_workers = True,
                 valid_since_config_version = active_config_version s1',
                 valid_since = to_int32 now, valid_until = to_int32 now + key_ttl\<rparr>]"
      by blast
    with kept True w0 show ?thesis by simp
  next
    case False
    with s2 have "s2 = s1'" by (simp add: g_def)
    with kept False w0 show ?thesis by simp
  qed
  then obtain gw where gw: "private_keys s2 = filter ?live (private_keys s) @ gw"
    "if ?W = []
     then \<exists>k. gw = [k] \<and> for_workers k \<and> \<not> for_proxies k \<and> private_key k = seed_w
                  \<and> valid_until k = to_int32 now + key_ttl
     else gw = []"
    by blast
  have "\<exists>gp. private_keys s' = private_keys s2 @ gp \<and>
    (if ?P = []
     then \<exists>k. gp = [k] \<and> for_proxies k \<and> \<not> for_workers k \<and> private_key k = seed_p
                  \<and> valid_until k = to_int32 now + key_ttl
     else gp = [])"
  proof (cases "snd (snd (snd r)) = 0")
    case True
    with assms(1) unf s2 have "generate_key ext now seed_p True False s2 = Inr s'" by simp
    from generate_key_Inr [OF this] obtain pub where
      "private_keys s' = private_keys s2 @
               [\<lparr>private_key = seed_p, public_key = pub, for_proxies = True, for_workers = False,
                 valid_since_config_version = active_config_version s2,
                 valid_since = to_int32 now, valid_until = to_int32 now + key_ttl\<rparr>]"
      by blast
    with True p0 show ?thesis by simp
  next
    case False
    with assms(1) unf s2 have "s' = s2" by simp
    with False p0 show ?thesis by simp
  qed
  then obtain gp where gp: "private_keys s' = private_keys s2 @ gp"
    "if ?P = []
     then \<exists>k. gp = [k] \<and> for_proxies k \<and> \<not> for_workers k \<and> private_key k = seed_p
                  \<and> valid_until k = to_int32 now + key_ttl
     else gp = []"
    by blast
  show ?thesis
    apply (rule exI [of _ gw])
    apply (rule exI [of _ gp])
    using gw gp by simp
qed

lemma alarm_cycle_role_coverage:
  assumes "alarm_cycle ext now seed_w seed_p s = Inr s'"
      and "length (private_keys s) < 2 ^ 32"
      and "0 \<le> now" and "now < 2147397248"
  shows "(\<exists>k \<in> set (private_keys s'). for_workers k \<and> \<not> real_of_int (sint (valid_until k)) < now)
       \<and> (\<exists>k \<in> set (private_keys s'). for_proxies k \<and> \<not> real_of_int (sint (valid_until k)) < now)"
proof -
  let ?live = "\<lambda>k. \<not> real_of_int (sint (valid_until k)) < now"
  let ?kept = "filter ?live (private_keys s)"
  let ?W = "filter (\<lambda>k. \<not> real_of_int (sint (valid_until k)) < now \<and> for_workers k) (private_keys s)"
  let ?P = "filter (\<lambda>k. \<not> real_of_int (sint (valid_until k)) < now \<and> for_proxies k) (private_keys s)"
  note fresh = fresh_valid_until [OF assms(3,4)]
  from alarm_cycle_ledger [OF assms(1,2)] obtain gw gp where
    l: "private_keys s' = ?kept @ gw @ gp"
    and w: "if ?W = []
         then \<exists>k. gw = [k] \<and> for_workers k \<and> \<not> for_proxies k \<and> private_key k = seed_w
                  \<and> valid_until k = to_int32 now + key_ttl
         else gw = []"
    and p: "if ?P = []
         then \<exists>k. gp = [k] \<and> for_proxies k \<and> \<not> for_workers k \<and> private_key k = seed_p
                  \<and> valid_until k = to_int32 now + key_ttl
         else gp = []"
    by blast
  have "\<exists>k \<in> set ?kept \<union> set gw. for_workers k \<and> ?live k"
  proof (cases "?W = []")
    case True
    with w obtain k where "gw = [k]" "for_workers k" "valid_until k = to_int32 now + key_ttl"
      by auto
    with fresh show ?thesis by auto
  next
    case False
    then obtain k where "k \<in> set (private_keys s)" "?live k" "for_workers k"
      by (auto simp: filter_empty_conv)
    then show ?thesis by auto
  qed
  moreover have "\<exists>k \<in> set ?kept \<union> set gp. for_proxies k \<and> ?live k"
  proof (cases "?P = []")
    case True
    with p obtain k where "gp = [k]" "for_proxies k" "valid_until k = to_int32 now + key_ttl"
      by auto
    with fresh show ?thesis by auto
  next
    case False
    then obtain k where "k \<in> set (private_keys s)" "?live k" "for_proxies k"
      by (auto simp: filter_empty_conv)
    then show ?thesis by auto
  qed
  ultimately show ?thesis unfolding l by auto
qed

section \<open>Claim C1: the guard of the maintenance cycle\<close>

text \<open>
  C1 says that \<^verbatim>\<open>alarm\<close> does its work only once the service is initialised and is a
  no-op before. The source returns when \<^verbatim>\<open>is_initialized()\<close> holds, the opposite of
  the guards of \<^verbatim>\<open>receive_query\<close> and \<^verbatim>\<open>allocate_inbound_connection\<close>. At the
  initialised demo runner, second 2000, \<^verbatim>\<open>alarm\<close> changes nothing although the ledger
  holds a key that expired at second 1000; at the same runner with the flag off it sweeps
  that key and generates two.
\<close>

theorem alarm_guard_is_inverted:
  "is_initialized demo_runner
   \<and> demo_old_key \<in> set (private_keys demo_runner)
   \<and> real_of_int (sint (valid_until demo_old_key)) < 2000
   \<and> alarm demo_externals 2000 [7] [171] demo_runner = Inr demo_runner
   \<and> \<not> is_initialized (demo_runner\<lparr>is_initialized := False\<rparr>)
   \<and> alarm demo_externals 2000 [7] [171] (demo_runner\<lparr>is_initialized := False\<rparr>)
       = Inr (demo_runner_swept\<lparr>is_initialized := False\<rparr>)
   \<and> demo_runner_swept\<lparr>is_initialized := False\<rparr> \<noteq> demo_runner\<lparr>is_initialized := False\<rparr>"
  by (simp add: alarm_def alarm_cycle_def demo_runner_def demo_old_key_def demo_runner_swept_def
      generate_key_def set_to_db_def demo_externals_def to_int32_def key_ttl_def
      db_key_name_def hex_digit_def Let_def)

section \<open>Claim C2: expiry\<close>

text \<open>
  C2, as amended. When the statements of the maintenance cycle (\<^verbatim>\<open>alarm\<close> past its
  guard) run to completion at a clock reading \<open>now\<close> inside the 32-bit range, every
  record of the ledger whose \<open>valid_until\<close> is strictly less than \<open>now\<close> is afterwards
  absent from the ledger, has no entry in the store (provided a key generated in the same
  cycle does not have the same hex public key), and its
  \<open>(valid_until, private_key)\<close> pair is in no list that \<^verbatim>\<open>getProxyPrivateKeys\<close> or
  \<^verbatim>\<open>getWorkerPrivateKeys\<close> returns from a ledger equal to the one the cycle left.
\<close>

theorem alarm_cycle_removes_expired:
  assumes "alarm_cycle ext now seed_w seed_p s = Inr s'"
      and "k \<in> set (private_keys s)"
      and "real_of_int (sint (valid_until k)) < now"
      and "0 \<le> now" and "now < 2147397248"
      and "\<forall>pub. get_public_key ext seed_w = Some pub \<longrightarrow> to_hex ext pub \<noteq> to_hex ext (public_key k)"
      and "\<forall>pub. get_public_key ext seed_p = Some pub \<longrightarrow> to_hex ext pub \<noteq> to_hex ext (public_key k)"
  shows "k \<notin> set (private_keys s')
       \<and> map_of (kv s') (db_key_name ext (public_key k)) = None
       \<and> (\<forall>t cid q pks. private_keys t = private_keys s' \<longrightarrow>
             fst (receive_query ext t cid q) = Some (Set_value pks) \<longrightarrow>
             (valid_until k, private_key k) \<notin> set pks)"
proof -
  have live: "\<forall>k' \<in> set (private_keys s'). \<not> real_of_int (sint (valid_until k')) < now"
    by (rule alarm_cycle_live [OF assms(1,4,5)])
  have 1: "k \<notin> set (private_keys s')"
    using live assms(3) by blast
  have 2: "map_of (kv s') (db_key_name ext (public_key k)) = None"
    by (rule alarm_cycle_store_erased [OF assms(1,2,3,6,7)])
  have 3: "(valid_until k, private_key k) \<notin> set pks"
    if "private_keys t = private_keys s'"
       "fst (receive_query ext t cid q) = Some (Set_value pks)" for t cid q pks
  proof
    assume "(valid_until k, private_key k) \<in> set pks"
    with receive_query_value [OF that(2)] that(1)
    obtain k' where "k' \<in> set (private_keys s')" "valid_until k' = valid_until k"
      by auto
    with live assms(3) show False by auto
  qed
  from 1 2 3 show ?thesis by blast
qed

text \<open>
  The theorem at the demo runner, second 2000: the key that was valid until second 1000
  is swept.
\<close>

theorem alarm_cycle_removes_expired_witness:
  "alarm_cycle demo_externals 2000 [7] [171] demo_runner = Inr demo_runner_swept
   \<and> demo_old_key \<in> set (private_keys demo_runner)
   \<and> real_of_int (sint (valid_until demo_old_key)) < 2000
   \<and> demo_old_key \<notin> set (private_keys demo_runner_swept)
   \<and> map_of (kv demo_runner_swept) ''key_0203'' = None
   \<and> fst (receive_query demo_externals demo_runner_swept 1 [1]) = Some (Set_value [(88400, [171])])
   \<and> (valid_until demo_old_key, private_key demo_old_key) \<notin> set [(88400, [171])]"
proof -
  have step: "alarm_cycle demo_externals 2000 [7] [171] demo_runner = Inr demo_runner_swept"
    by (simp add: alarm_cycle_def demo_runner_def demo_old_key_def demo_runner_swept_def
      generate_key_def set_to_db_def demo_externals_def to_int32_def key_ttl_def
      db_key_name_def hex_digit_def Let_def)
  have mem: "demo_old_key \<in> set (private_keys demo_runner)"
    by (simp add: demo_runner_def)
  have old: "real_of_int (sint (valid_until demo_old_key)) < 2000"
    by (simp add: demo_old_key_def)
  have fw: "\<forall>pub. get_public_key demo_externals [7] = Some pub \<longrightarrow>
              to_hex demo_externals pub \<noteq> to_hex demo_externals (public_key demo_old_key)"
    by (simp add: demo_externals_def demo_old_key_def)
  have fp: "\<forall>pub. get_public_key demo_externals [171] = Some pub \<longrightarrow>
              to_hex demo_externals pub \<noteq> to_hex demo_externals (public_key demo_old_key)"
    by (simp add: demo_externals_def demo_old_key_def)
  have rpc: "fst (receive_query demo_externals demo_runner_swept 1 [1]) = Some (Set_value [(88400, [171])])"
    by (simp add: receive_query_def demo_runner_swept_def demo_runner_def demo_externals_def
        has_proxy_hash_def)
  from alarm_cycle_removes_expired [OF step mem old _ _ fw fp] rpc step mem old
  show ?thesis
    by (simp add: db_key_name_def demo_externals_def demo_old_key_def hex_digit_def)
qed

text \<open>
  C2 as stated fails at the boundary: at second 1000 the record with
  \<open>valid_until = 1000\<close> satisfies \<open>valid_until \<le> now\<close>, and after the cycle (run
  directly, or through \<^verbatim>\<open>alarm\<close> with either value of the initialisation flag) it is
  still in the ledger, in the store and in the list served to a proxy.
\<close>

theorem expiry_boundary_counterexample:
  "real_of_int (sint (valid_until demo_old_key)) \<le> 1000
   \<and> demo_old_key \<in> set (private_keys demo_runner)
   \<and> alarm_cycle demo_externals 1000 [7] [171] demo_runner = Inr demo_runner
   \<and> alarm demo_externals 1000 [7] [171] demo_runner = Inr demo_runner
   \<and> alarm demo_externals 1000 [7] [171] (demo_runner\<lparr>is_initialized := False\<rparr>)
       = Inr (demo_runner\<lparr>is_initialized := False\<rparr>)
   \<and> map_of (kv demo_runner) (db_key_name demo_externals (public_key demo_old_key))
       = Some ([0, 1, 1, 0, 232, 1, 2] @ replicate 64 7)
   \<and> fst (receive_query demo_externals demo_runner 1 [1]) = Some (Set_value [(1000, [1, 2])])"
  by (simp add: alarm_def alarm_cycle_def demo_runner_def demo_old_key_def
      receive_query_def demo_externals_def has_proxy_hash_def db_key_name_def hex_digit_def)

section \<open>Claim C3: role coverage\<close>

text \<open>
  C3 says that after any maintenance cycle the ledger holds a key for workers and a key
  for proxies. At an initialised runner with an empty ledger \<^verbatim>\<open>alarm\<close> returns at its
  guard and the ledger stays empty; the statements after the guard, run on the same state,
  generate one worker-only and one proxy-only key (as they do in general:
  \<open>alarm_cycle_ledger\<close> and \<open>alarm_cycle_role_coverage\<close> above).
\<close>

theorem alarm_leaves_roles_uncovered:
  "is_initialized (demo_runner\<lparr>private_keys := [], kv := []\<rparr>)
   \<and> alarm demo_externals 2000 [7] [171] (demo_runner\<lparr>private_keys := [], kv := []\<rparr>)
       = Inr (demo_runner\<lparr>private_keys := [], kv := []\<rparr>)
   \<and> filter for_workers (private_keys (demo_runner\<lparr>private_keys := [], kv := []\<rparr>)) = []
   \<and> filter for_proxies (private_keys (demo_runner\<lparr>private_keys := [], kv := []\<rparr>)) = []
   \<and> alarm_cycle demo_externals 2000 [7] [171] (demo_runner\<lparr>private_keys := [], kv := []\<rparr>)
       = Inr demo_runner_swept
   \<and> map for_workers (private_keys demo_runner_swept) = [True, False]
   \<and> map for_proxies (private_keys demo_runner_swept) = [False, True]"
  by (simp add: alarm_def alarm_cycle_def demo_runner_def demo_runner_swept_def
      generate_key_def set_to_db_def demo_externals_def to_int32_def key_ttl_def
      db_key_name_def hex_digit_def Let_def)

section \<open>Claim C4: round trip through the signed store\<close>

text \<open>
  C4. Where the node key signs the payload \<open>P\<close> with a 64-byte signature that its public
  key verifies, \<^verbatim>\<open>set_to_db(K, P)\<close> writes \<open>P\<close> followed by that signature (the last 64
  bytes of the stored value), and \<^verbatim>\<open>get_from_db(K)\<close> then returns exactly \<open>P\<close>.
\<close>

theorem set_to_db_get_from_db:
  assumes "sign ext P = Some sg" and "length sg = 64" and "verify_signature ext P sg"
  shows "set_to_db ext K P s = Inr (s\<lparr>kv := AList.update K (P @ sg) (kv s)\<rparr>)
       \<and> map_of (kv (s\<lparr>kv := AList.update K (P @ sg) (kv s)\<rparr>)) K = Some (P @ sg)
       \<and> drop (length (P @ sg) - 64) (P @ sg) = sg
       \<and> get_from_db ext K (s\<lparr>kv := AList.update K (P @ sg) (kv s)\<rparr>) = Inr P"
  using assms by (simp add: set_to_db_def get_from_db_def update_conv')

theorem set_to_db_get_from_db_witness:
  "sign demo_externals [5, 6] = Some (replicate 64 2)
   \<and> length (replicate 64 (2 :: 8 word)) = 64
   \<and> verify_signature demo_externals [5, 6] (replicate 64 2)
   \<and> set_to_db demo_externals ''config'' [5, 6] demo_runner
       = Inr (demo_runner\<lparr>kv := AList.update ''config'' ([5, 6] @ replicate 64 2) (kv demo_runner)\<rparr>)
   \<and> get_from_db demo_externals ''config''
         (demo_runner\<lparr>kv := AList.update ''config'' ([5, 6] @ replicate 64 2) (kv demo_runner)\<rparr>)
       = Inr [5, 6]"
proof -
  have a: "sign demo_externals [5, 6] = Some (replicate 64 2)"
    by (simp add: demo_externals_def)
  have b: "length (replicate 64 (2 :: 8 word)) = 64" by simp
  have c: "verify_signature demo_externals [5, 6] (replicate 64 2)"
    by (simp add: demo_externals_def)
  from set_to_db_get_from_db [OF a b c, where K = "''config''" and s = demo_runner] a b c
  show ?thesis by blast
qed

section \<open>Claim C5: fatal conditions\<close>

lemma process_db_key_bad_signature:
  "\<not> (64 \<le> length v \<and> verify_signature ext (take (length v - 64) v) (drop (length v - 64) v))
   \<Longrightarrow> isl (process_db_key ext now key v s)"
  by (auto simp: process_db_key_def Let_def)

lemma process_db_key_unknown_type:
  "fst (split_key key) \<noteq> ''key'' \<Longrightarrow> fst (split_key key) \<noteq> ''config''
   \<Longrightarrow> isl (process_db_key ext now key v s)"
  by (simp add: process_db_key_def Let_def)

lemma process_db_key_version_ahead:
  "fst (split_key key) = ''key'' \<Longrightarrow> fetch_key ext (take (length v - 64) v) = Some obj
   \<Longrightarrow> active_config_version s < tl_valid_since_config_version obj
   \<Longrightarrow> isl (process_db_key ext now key v s)"
  by (simp add: process_db_key_def Let_def split: option.splits)

lemma process_db_key_active_config_version:
  "process_db_key ext now key v s = Inr s' \<Longrightarrow> active_config_version s' = active_config_version s"
  by (auto simp: process_db_key_def Let_def split: option.splits if_splits)

lemma for_each_db_crash:
  assumes "(key, v) \<in> set db"
      and "\<And>s'. active_config_version s' = active_config_version s
                 \<Longrightarrow> isl (process_db_key ext now key v s')"
  shows "isl (for_each_db ext now db s)"
  using assms
proof (induction db arbitrary: s)
  case Nil
  then show ?case by simp
next
  case (Cons e db)
  obtain key' v' where e: "e = (key', v')" by (cases e)
  show ?case
  proof (cases "process_db_key ext now key' v' s")
    case (Inl c)
    then show ?thesis by (simp add: e)
  next
    case (Inr s1)
    have same: "active_config_version s1 = active_config_version s"
      by (rule process_db_key_active_config_version [OF Inr])
    have "(key, v) \<in> set db"
      using Cons.prems(1) Cons.prems(2) [of s] Inr by (auto simp: e)
    moreover have "\<And>s'. active_config_version s' = active_config_version s1
                 \<Longrightarrow> isl (process_db_key ext now key v s')"
      using Cons.prems(2) same by simp
    ultimately have "isl (for_each_db ext now db s1)" by (rule Cons.IH)
    then show ?thesis by (simp add: e Inr)
  qed
qed

text \<open>
  C5. Each of these ends in a crash of the process (an \<open>Inl\<close> result), never in a value
  or a repaired state: a stored value whose last 64 bytes do not verify as the signature
  of the rest, on \<^verbatim>\<open>get_from_db\<close> and on the recovery scan; an entry of the scan whose
  key prefix is neither \<^verbatim>\<open>key\<close> nor \<^verbatim>\<open>config\<close>; a key entry of the scan whose
  \<open>valid_since_config_version\<close> exceeds the active config version.
\<close>

theorem corrupted_store_is_fatal:
  "(map_of (kv s) key = Some v \<and> 64 \<le> length v
      \<and> \<not> verify_signature ext (take (length v - 64) v) (drop (length v - 64) v)
      \<longrightarrow> get_from_db ext key s = Inl Ensure_failed)
   \<and> ((key, v) \<in> set db \<and> 64 \<le> length v
      \<and> \<not> verify_signature ext (take (length v - 64) v) (drop (length v - 64) v)
      \<longrightarrow> process_db_key ext now key v s = Inl Ensure_failed \<and> isl (for_each_db ext now db s))
   \<and> ((key, v) \<in> set db \<and> fst (split_key key) \<noteq> ''key'' \<and> fst (split_key key) \<noteq> ''config''
      \<longrightarrow> isl (process_db_key ext now key v s) \<and> isl (for_each_db ext now db s))
   \<and> ((key, v) \<in> set db \<and> fst (split_key key) = ''key''
      \<and> fetch_key ext (take (length v - 64) v) = Some obj
      \<and> active_config_version s < tl_valid_since_config_version obj
      \<longrightarrow> isl (process_db_key ext now key v s) \<and> isl (for_each_db ext now db s))"
proof -
  have 1: "get_from_db ext key s = Inl Ensure_failed"
    if "map_of (kv s) key = Some v" "64 \<le> length v"
       "\<not> verify_signature ext (take (length v - 64) v) (drop (length v - 64) v)"
    using that by (simp add: get_from_db_def Let_def)
  have 2: "process_db_key ext now key v s = Inl Ensure_failed \<and> isl (for_each_db ext now db s)"
    if "(key, v) \<in> set db" "64 \<le> length v"
       "\<not> verify_signature ext (take (length v - 64) v) (drop (length v - 64) v)"
  proof -
    have "process_db_key ext now key v s = Inl Ensure_failed"
      using that(2,3) by (simp add: process_db_key_def Let_def)
    moreover have "isl (for_each_db ext now db s)"
      using for_each_db_crash [OF that(1), of s ext now]
        process_db_key_bad_signature [of v ext now key] that(3) by blast
    ultimately show ?thesis by simp
  qed
  have 3: "isl (process_db_key ext now key v s) \<and> isl (for_each_db ext now db s)"
    if "(key, v) \<in> set db" "fst (split_key key) \<noteq> ''key''" "fst (split_key key) \<noteq> ''config''"
    using for_each_db_crash [OF that(1), of s ext now]
      process_db_key_unknown_type [OF that(2,3)] by blast
  have 4: "isl (process_db_key ext now key v s) \<and> isl (for_each_db ext now db s)"
    if "(key, v) \<in> set db" "fst (split_key key) = ''key''"
       "fetch_key ext (take (length v - 64) v) = Some obj"
       "active_config_version s < tl_valid_since_config_version obj"
  proof -
    have "isl (process_db_key ext now key v s')"
      if "active_config_version s' = active_config_version s" for s'
      using process_db_key_version_ahead [OF \<open>fst (split_key key) = ''key''\<close>
          \<open>fetch_key ext (take (length v - 64) v) = Some obj\<close>, of s' now]
        \<open>active_config_version s < tl_valid_since_config_version obj\<close> that by simp
    from for_each_db_crash [OF \<open>(key, v) \<in> set db\<close> this] this [of s]
    show ?thesis by simp
  qed
  from 1 2 3 4 show ?thesis by blast
qed

theorem corrupted_store_is_fatal_witness:
  "get_from_db demo_externals ''config'' (demo_runner\<lparr>kv := [(''config'', replicate 64 9)]\<rparr>)
     = Inl Ensure_failed
   \<and> process_db_key demo_externals 2000 ''config'' (replicate 64 9) demo_runner = Inl Ensure_failed
   \<and> isl (for_each_db demo_externals 2000 [(''config'', replicate 64 9)] demo_runner)
   \<and> process_db_key demo_externals 2000 ''legacy_01'' (replicate 64 0) demo_runner = Inl LOG_FATAL
   \<and> isl (for_each_db demo_externals 2000 [(''legacy_01'', replicate 64 0)] demo_runner)
   \<and> process_db_key demo_externals 2000 ''key_0203'' ([5, 1, 1, 0, 232, 1, 2] @ replicate 64 7)
        demo_runner = Inl CHECK_failed
   \<and> isl (for_each_db demo_externals 2000
            [(''key_0203'', [5, 1, 1, 0, 232, 1, 2] @ replicate 64 7)] demo_runner)"
proof -
  have bad: "\<not> verify_signature demo_externals (take (length (replicate 64 (9 :: 8 word)) - 64)
               (replicate 64 9)) (drop (length (replicate 64 (9 :: 8 word)) - 64) (replicate 64 9))"
    by (simp add: demo_externals_def)
  have kv: "map_of (kv (demo_runner\<lparr>kv := [(''config'', replicate 64 9)]\<rparr>)) ''config''
              = Some (replicate 64 9)"
    by simp
  have ty: "fst (split_key ''legacy_01'') \<noteq> ''key''" "fst (split_key ''legacy_01'') \<noteq> ''config''"
    by (simp_all add: split_key_def)
  have fatal: "process_db_key demo_externals 2000 ''legacy_01'' (replicate 64 0) demo_runner
                 = Inl LOG_FATAL"
    by (simp add: process_db_key_def split_key_def demo_externals_def)
  have ky: "fst (split_key ''key_0203'') = ''key''"
    by (simp add: split_key_def)
  have obj: "fetch_key demo_externals
               (take (length ([5, 1, 1, 0, 232, 1, 2] @ replicate 64 (7 :: 8 word)) - 64)
                  ([5, 1, 1, 0, 232, 1, 2] @ replicate 64 7))
             = Some \<lparr>tl_private_key = [1, 2], tl_for_workers = True, tl_for_proxies = True,
                     tl_valid_since_config_version = 5, tl_valid_since_utime = 0,
                     tl_valid_until_utime = 232\<rparr>"
    by (simp add: demo_externals_def)
  have ahead: "active_config_version demo_runner
                 < tl_valid_since_config_version
                     \<lparr>tl_private_key = [1, 2], tl_for_workers = True, tl_for_proxies = True,
                      tl_valid_since_config_version = 5, tl_valid_since_utime = 0,
                      tl_valid_until_utime = 232\<rparr>"
    by (simp add: demo_runner_def)
  have check: "process_db_key demo_externals 2000 ''key_0203''
                 ([5, 1, 1, 0, 232, 1, 2] @ replicate 64 7) demo_runner = Inl CHECK_failed"
    by (simp add: process_db_key_def split_key_def demo_externals_def demo_runner_def
        hex_digit_def)
  from corrupted_store_is_fatal
         [where s = "demo_runner\<lparr>kv := [(''config'', replicate 64 9)]\<rparr>" and key = "''config''"
            and v = "replicate 64 9" and ext = demo_externals] kv bad
  have a: "get_from_db demo_externals ''config''
             (demo_runner\<lparr>kv := [(''config'', replicate 64 9)]\<rparr>) = Inl Ensure_failed"
    by simp
  from corrupted_store_is_fatal
         [where s = demo_runner and key = "''config''" and v = "replicate 64 9"
            and db = "[(''config'', replicate 64 9)]" and ext = demo_externals and now = 2000] bad
  have b: "process_db_key demo_externals 2000 ''config'' (replicate 64 9) demo_runner
             = Inl Ensure_failed
           \<and> isl (for_each_db demo_externals 2000 [(''config'', replicate 64 9)] demo_runner)"
    by simp
  from corrupted_store_is_fatal
         [where s = demo_runner and key = "''legacy_01''" and v = "replicate 64 0"
            and db = "[(''legacy_01'', replicate 64 0)]" and ext = demo_externals and now = 2000] ty
  have c: "isl (for_each_db demo_externals 2000 [(''legacy_01'', replicate 64 0)] demo_runner)"
    by simp
  from corrupted_store_is_fatal
         [where s = demo_runner and key = "''key_0203''"
            and v = "[5, 1, 1, 0, 232, 1, 2] @ replicate 64 7"
            and db = "[(''key_0203'', [5, 1, 1, 0, 232, 1, 2] @ replicate 64 7)]"
            and ext = demo_externals and now = 2000
            and obj = "\<lparr>tl_private_key = [1, 2], tl_for_workers = True, tl_for_proxies = True,
                      tl_valid_since_config_version = 5, tl_valid_since_utime = 0,
                      tl_valid_until_utime = 232\<rparr>"] ky obj ahead
  have d: "isl (for_each_db demo_externals 2000
            [(''key_0203'', [5, 1, 1, 0, 232, 1, 2] @ replicate 64 7)] demo_runner)"
    by simp
  from a b c d fatal check show ?thesis by simp
qed

section \<open>Claim C6: authorisation of the key queries\<close>

text \<open>
  C6. On an initialised service and a known connection: \<^verbatim>\<open>getProxyPrivateKeys\<close>
  (respectively \<^verbatim>\<open>getWorkerPrivateKeys\<close>) fails with the fixed error "unknown proxy
  hash" ("unknown worker hash") when hash checking is on and the caller's image hash is
  not in the proxy (worker) allow-list, and otherwise returns the
  \<open>(valid_until, private_key)\<close> pair of every ledger record with the role flag set; the
  runner's state is unchanged either way.
\<close>

theorem receive_query_authorization:
  assumes "is_initialized s" and "connections s cid = Some conn"
  shows "(get_tl_magic ext q = getProxyPrivateKeys_ID ext \<longrightarrow>
            receive_query ext s cid q =
              (if check_hashes s \<and> remote_app_hash conn \<notin> set (proxy_hashes (runner_config s))
               then Some (Set_error ErrorCode_error ''unknown proxy hash'')
               else Some (Set_value (map (\<lambda>k. (valid_until k, private_key k))
                                         (filter for_proxies (private_keys s)))),
               s))
       \<and> (get_tl_magic ext q = getWorkerPrivateKeys_ID ext
            \<and> getWorkerPrivateKeys_ID ext \<noteq> getProxyPrivateKeys_ID ext \<longrightarrow>
            receive_query ext s cid q =
              (if check_hashes s \<and> remote_app_hash conn \<notin> set (worker_hashes (runner_config s))
               then Some (Set_error ErrorCode_error ''unknown worker hash'')
               else Some (Set_value (map (\<lambda>k. (valid_until k, private_key k))
                                         (filter for_workers (private_keys s)))),
               s))"
  using assms by (simp add: receive_query_def has_proxy_hash_def has_worker_hash_def)

theorem receive_query_authorization_witness:
  "is_initialized demo_runner
   \<and> connections demo_runner 1 = Some \<lparr>remote_app_hash = [17]\<rparr>
   \<and> connections demo_runner 2 = Some \<lparr>remote_app_hash = [34]\<rparr>
   \<and> get_tl_magic demo_externals [1] = getProxyPrivateKeys_ID demo_externals
   \<and> get_tl_magic demo_externals [2] = getWorkerPrivateKeys_ID demo_externals
   \<and> getWorkerPrivateKeys_ID demo_externals \<noteq> getProxyPrivateKeys_ID demo_externals
   \<and> receive_query demo_externals demo_runner 1 [1]
       = (Some (Set_value [(1000, [1, 2])]), demo_runner)
   \<and> receive_query demo_externals demo_runner 2 [1]
       = (Some (Set_error ErrorCode_error ''unknown proxy hash''), demo_runner)
   \<and> receive_query demo_externals demo_runner 2 [2]
       = (Some (Set_value [(1000, [1, 2])]), demo_runner)
   \<and> receive_query demo_externals demo_runner 1 [2]
       = (Some (Set_error ErrorCode_error ''unknown worker hash''), demo_runner)"
proof -
  have i: "is_initialized demo_runner" by (simp add: demo_runner_def)
  have c1: "connections demo_runner 1 = Some \<lparr>remote_app_hash = [17]\<rparr>"
    by (simp add: demo_runner_def)
  have c2: "connections demo_runner 2 = Some \<lparr>remote_app_hash = [34]\<rparr>"
    by (simp add: demo_runner_def)
  have m: "get_tl_magic demo_externals [1] = getProxyPrivateKeys_ID demo_externals"
          "get_tl_magic demo_externals [2] = getWorkerPrivateKeys_ID demo_externals"
          "getWorkerPrivateKeys_ID demo_externals \<noteq> getProxyPrivateKeys_ID demo_externals"
    by (simp_all add: demo_externals_def)
  have st: "check_hashes demo_runner"
           "proxy_hashes (runner_config demo_runner) = [[17]]"
           "worker_hashes (runner_config demo_runner) = [[34]]"
           "private_keys demo_runner = [demo_old_key]"
    by (simp_all add: demo_runner_def)
  from receive_query_authorization [OF i c1, where ext = demo_externals and q = "[1]"]
       receive_query_authorization [OF i c2, where ext = demo_externals and q = "[1]"]
       receive_query_authorization [OF i c2, where ext = demo_externals and q = "[2]"]
       receive_query_authorization [OF i c1, where ext = demo_externals and q = "[2]"]
       i c1 c2 m
  show ?thesis by (simp add: st demo_old_key_def)
qed

section \<open>Claim C7: the generated record\<close>

text \<open>
  C7, as amended. Where public-key derivation and signing succeed and the clock reading
  \<open>now\<close> is at least 0 and below \<open>2^31 - 86400\<close>, \<^verbatim>\<open>generate_key\<close> appends to the
  ledger the record with the seed as private key, its derived public key, the role flags
  as given, the active config version, \<open>valid_since\<close> the clock reading in whole seconds
  and \<open>valid_until\<close> exactly 86400 more, and stores the signed serialised record under
  \<^verbatim>\<open>key_\<close> followed by the hex public key.
\<close>

theorem generate_key_record:
  fixes ext :: externals and s :: runner and seed pub :: bytes and fp fw :: bool and now :: real
  defines "P \<equiv> \<lparr>private_key = seed, public_key = pub, for_proxies = fp, for_workers = fw,
                  valid_since_config_version = active_config_version s,
                  valid_since = word_of_int \<lfloor>now\<rfloor>,
                  valid_until = word_of_int (\<lfloor>now\<rfloor> + 86400)\<rparr>"
      and "payload \<equiv> serialize_key ext
                  \<lparr>tl_private_key = seed, tl_for_workers = fw, tl_for_proxies = fp,
                   tl_valid_since_config_version = active_config_version s,
                   tl_valid_since_utime = word_of_int \<lfloor>now\<rfloor>,
                   tl_valid_until_utime = word_of_int (\<lfloor>now\<rfloor> + 86400)\<rparr>"
  assumes "get_public_key ext seed = Some pub"
      and "sign ext payload = Some sg" and "length sg = 64"
      and "0 \<le> now" and "now < 2147397248"
  shows "generate_key ext now seed fp fw s
           = Inr (s\<lparr>kv := AList.update (''key_'' @ to_hex ext pub) (payload @ sg) (kv s),
                    private_keys := private_keys s @ [P]\<rparr>)
       \<and> get_public_key ext (private_key P) = Some (public_key P)
       \<and> sint (valid_since P) = \<lfloor>now\<rfloor>
       \<and> sint (valid_until P) = sint (valid_since P) + 86400"
proof -
  have fl: "0 \<le> \<lfloor>now\<rfloor>" "\<lfloor>now\<rfloor> < 2147397248"
    using assms(6,7) by (auto simp: floor_less_iff)
  have since: "to_int32 now = word_of_int \<lfloor>now\<rfloor>"
    using assms(6,7) by (simp add: to_int32_def)
  have gen: "generate_key ext now seed fp fw s
           = Inr (s\<lparr>kv := AList.update (''key_'' @ to_hex ext pub) (payload @ sg) (kv s),
                    private_keys := private_keys s @ [P]\<rparr>)"
    using assms(3-5) unfolding P_def payload_def
    by (simp add: generate_key_def set_to_db_def db_key_name_def since key_ttl_def Let_def)
  have "sint (word_of_int \<lfloor>now\<rfloor> :: 32 word) = signed_take_bit 31 \<lfloor>now\<rfloor>"
    by (simp add: sint_sbintrunc')
  also have "\<dots> = \<lfloor>now\<rfloor>"
    using fl by (intro signed_take_bit_int_eq_self) simp_all
  finally have a: "sint (word_of_int \<lfloor>now\<rfloor> :: 32 word) = \<lfloor>now\<rfloor>" .
  have "sint (word_of_int (\<lfloor>now\<rfloor> + 86400) :: 32 word) = signed_take_bit 31 (\<lfloor>now\<rfloor> + 86400)"
    by (simp only: sint_sbintrunc') simp
  also have "\<dots> = \<lfloor>now\<rfloor> + 86400"
    using fl by (intro signed_take_bit_int_eq_self) simp_all
  finally have b: "sint (word_of_int (\<lfloor>now\<rfloor> + 86400) :: 32 word) = \<lfloor>now\<rfloor> + 86400" .
  from gen a b assms(3) show ?thesis by (simp add: P_def)
qed

text \<open>The theorem at the demo runner, second 2000, for a worker-only key with seed \<open>[7]\<close>.\<close>

theorem generate_key_record_witness:
  "get_public_key demo_externals [7] = Some [8]
   \<and> sign demo_externals [0, 1, 0, 208, 80, 7] = Some (replicate 64 6)
   \<and> length (replicate 64 (6 :: 8 word)) = 64
   \<and> (0 :: real) \<le> 2000 \<and> (2000 :: real) < 2147397248
   \<and> generate_key demo_externals 2000 [7] False True demo_runner
       = Inr (demo_runner
               \<lparr>kv := AList.update ''key_08'' ([0, 1, 0, 208, 80, 7] @ replicate 64 6) (kv demo_runner),
                private_keys := private_keys demo_runner @
                  [\<lparr>private_key = [7], public_key = [8], for_proxies = False, for_workers = True,
                    valid_since_config_version = 0, valid_since = 2000, valid_until = 88400\<rparr>]\<rparr>)
   \<and> sint (2000 :: 32 word) = 2000
   \<and> sint (88400 :: 32 word) = sint (2000 :: 32 word) + 86400"
proof -
  have a: "get_public_key demo_externals [7] = Some [8]"
    by (simp add: demo_externals_def)
  have ser: "serialize_key demo_externals
                  \<lparr>tl_private_key = [7], tl_for_workers = True, tl_for_proxies = False,
                   tl_valid_since_config_version = active_config_version demo_runner,
                   tl_valid_since_utime = word_of_int \<lfloor>2000 :: real\<rfloor>,
                   tl_valid_until_utime = word_of_int (\<lfloor>2000 :: real\<rfloor> + 86400)\<rparr>
             = [0, 1, 0, 208, 80, 7]"
    by (simp add: demo_externals_def demo_runner_def)
  have b: "sign demo_externals (serialize_key demo_externals
                  \<lparr>tl_private_key = [7], tl_for_workers = True, tl_for_proxies = False,
                   tl_valid_since_config_version = active_config_version demo_runner,
                   tl_valid_since_utime = word_of_int \<lfloor>2000 :: real\<rfloor>,
                   tl_valid_until_utime = word_of_int (\<lfloor>2000 :: real\<rfloor> + 86400)\<rparr>)
             = Some (replicate 64 6)"
    unfolding ser by (simp add: demo_externals_def)
  have c: "length (replicate 64 (6 :: 8 word)) = 64" by simp
  have r: "(0 :: real) \<le> 2000" "(2000 :: real) < 2147397248" by simp_all
  have h: "to_hex demo_externals [8] = ''08''"
    by (simp add: demo_externals_def hex_digit_def)
  from generate_key_record [OF a b c r] a b c ser h
  show ?thesis
    by (simp add: demo_runner_def)
qed

text \<open>
  C7 as stated fails once the clock comes within a day of the largest \<^verbatim>\<open>int32\<close>: at
  second 2147483547 the generated record has \<open>valid_since = 2147483547\<close>, and the
  32-bit sum wraps, so that \<open>valid_until\<close> reads \<open>-2147397349\<close> and not
  \<open>valid_since + 86400 = 2147569947\<close>.
\<close>

theorem generate_key_overflow_counterexample:
  "generate_key demo_externals 2147483547 [7] False True demo_runner
       = Inr (demo_runner
               \<lparr>kv := AList.update ''key_08'' ([0, 1, 0, 155, 27, 7] @ replicate 64 6) (kv demo_runner),
                private_keys := private_keys demo_runner @
                  [\<lparr>private_key = [7], public_key = [8], for_proxies = False, for_workers = True,
                    valid_since_config_version = 0, valid_since = 2147483547,
                    valid_until = 2147569947\<rparr>]\<rparr>)
   \<and> sint (2147483547 :: 32 word) = 2147483547
   \<and> sint (2147569947 :: 32 word) = - 2147397349
   \<and> sint (2147569947 :: 32 word) \<noteq> sint (2147483547 :: 32 word) + 86400"
  by (simp add: generate_key_def set_to_db_def demo_externals_def demo_runner_def
      to_int32_def key_ttl_def db_key_name_def hex_digit_def Let_def)

section \<open>Claim C8: the attested peer information\<close>

text \<open>
  C8. When the handshake of a client or server wrap consults the policy and the policy
  accepts, the wrap returns the new pipe together with the peer information made of the
  policy's attestation data, the user claims and the addresses given to the wrap; when
  the policy rejects, the wrap fails with the policy's error.
\<close>

theorem wrap_tls_attested_peer_info:
  "(policy quote claims = Inr attestation \<longrightarrow>
      PolicyHelper_validate policy source destination quote claims
        = (Inr attestation,
           Inr \<lparr>attestation_data = attestation, user_claims = claims,
                source_ip = get_ip_str source, source_port = get_port source,
                destination_ip = get_ip_str destination,
                destination_port = get_port destination\<rparr>)
      \<and> wrap_tls_client (Inr stream) (Some (quote, claims)) None pipe policy source destination
        = Some (Inr (Tls_pipe pipe stream,
                     \<lparr>attestation_data = attestation, user_claims = claims,
                      source_ip = get_ip_str source, source_port = get_port source,
                      destination_ip = get_ip_str destination,
                      destination_port = get_port destination\<rparr>))
      \<and> wrap_tls_server (Inr stream) (Some (quote, claims)) None pipe policy source destination
        = Some (Inr (Tls_pipe pipe stream,
                     \<lparr>attestation_data = attestation, user_claims = claims,
                      source_ip = get_ip_str source, source_port = get_port source,
                      destination_ip = get_ip_str destination,
                      destination_port = get_port destination\<rparr>)))
   \<and> (policy quote claims = Inl e \<longrightarrow>
      PolicyHelper_validate policy source destination quote claims = (Inl e, Inl e)
      \<and> wrap_tls_client (Inr stream) (Some (quote, claims)) ask_error pipe policy source destination
        = Some (Inl e)
      \<and> wrap_tls_server (Inr stream) (Some (quote, claims)) ask_error pipe policy source destination
        = Some (Inl e))"
  by (simp add: wrap_tls_client_def wrap_tls_server_def PolicyHelper_validate_def
      make_attested_peer_info_def)

theorem wrap_tls_attested_peer_info_witness:
  "demo_policy (3 :: nat) ''claims'' = Inr (4 :: nat)
   \<and> wrap_tls_client (Inr ''ssl'') (Some (3, ''claims'')) None ''raw'' demo_policy
        \<lparr>get_ip_str = ''10.0.0.1'', get_port = 4000\<rparr> \<lparr>get_ip_str = ''10.0.0.2'', get_port = 443\<rparr>
       = Some (Inr (Tls_pipe ''raw'' ''ssl'',
                    \<lparr>attestation_data = 4, user_claims = ''claims'',
                     source_ip = ''10.0.0.1'', source_port = 4000,
                     destination_ip = ''10.0.0.2'', destination_port = 443\<rparr>))
   \<and> wrap_tls_server (Inr ''ssl'') (Some (3, ''claims'')) None ''raw'' demo_policy
        \<lparr>get_ip_str = ''10.0.0.1'', get_port = 4000\<rparr> \<lparr>get_ip_str = ''10.0.0.2'', get_port = 443\<rparr>
       = Some (Inr (Tls_pipe ''raw'' ''ssl'',
                    \<lparr>attestation_data = 4, user_claims = ''claims'',
                     source_ip = ''10.0.0.1'', source_port = 4000,
                     destination_ip = ''10.0.0.2'', destination_port = 443\<rparr>))
   \<and> demo_policy (0 :: nat) ''claims'' = Inl (Error 1 ''quote rejected'')
   \<and> wrap_tls_client (Inr ''ssl'') (Some (0, ''claims'')) None ''raw'' demo_policy
        \<lparr>get_ip_str = ''10.0.0.1'', get_port = 4000\<rparr> \<lparr>get_ip_str = ''10.0.0.2'', get_port = 443\<rparr>
       = Some (Inl (Error 1 ''quote rejected''))
   \<and> wrap_tls_server (Inr ''ssl'') (Some (0, ''claims'')) None ''raw'' demo_policy
        \<lparr>get_ip_str = ''10.0.0.1'', get_port = 4000\<rparr> \<lparr>get_ip_str = ''10.0.0.2'', get_port = 443\<rparr>
       = Some (Inl (Error 1 ''quote rejected''))"
proof -
  have a: "demo_policy (3 :: nat) ''claims'' = Inr (4 :: nat)"
    by (simp add: demo_policy_def)
  have r: "demo_policy (0 :: nat) ''claims'' = Inl (Error 1 ''quote rejected'')"
    by (simp add: demo_policy_def)
  from wrap_tls_attested_peer_info
         [where policy = demo_policy and quote = 3 and claims = "''claims''"
            and attestation = 4 and stream = "''ssl''" and pipe = "''raw''"
            and source = "\<lparr>get_ip_str = ''10.0.0.1'', get_port = 4000\<rparr>"
            and destination = "\<lparr>get_ip_str = ''10.0.0.2'', get_port = 443\<rparr>"]
       wrap_tls_attested_peer_info
         [where policy = demo_policy and quote = 0 and claims = "''claims''"
            and e = "Error 1 ''quote rejected''" and stream = "''ssl''" and pipe = "''raw''"
            and ask_error = None
            and source = "\<lparr>get_ip_str = ''10.0.0.1'', get_port = 4000\<rparr>"
            and destination = "\<lparr>get_ip_str = ''10.0.0.2'', get_port = 443\<rparr>"]
       a r
  show ?thesis by simp
qed

section \<open>Claim C9: queries that get no reply\<close>

text \<open>
  C9. Before initialisation, or on a connection identifier that \<^verbatim>\<open>get_connection\<close>
  does not know, \<^verbatim>\<open>receive_query\<close> returns without fulfilling the promise; on a known
  connection an opcode other than the two key queries gets the error "unknown query
  magic".
\<close>

theorem receive_query_without_reply:
  "(\<not> is_initialized s \<or> connections s cid = None \<longrightarrow> receive_query ext s cid q = (None, s))
   \<and> (is_initialized s \<and> connections s cid = Some conn
        \<and> get_tl_magic ext q \<noteq> getProxyPrivateKeys_ID ext
        \<and> get_tl_magic ext q \<noteq> getWorkerPrivateKeys_ID ext \<longrightarrow>
        receive_query ext s cid q = (Some (Set_error ErrorCode_failure ''unknown query magic''), s))"
  by (auto simp: receive_query_def)

theorem receive_query_without_reply_witness:
  "\<not> is_initialized (demo_runner\<lparr>is_initialized := False\<rparr>)
   \<and> receive_query demo_externals (demo_runner\<lparr>is_initialized := False\<rparr>) 1 [1]
       = (None, demo_runner\<lparr>is_initialized := False\<rparr>)
   \<and> connections demo_runner 7 = None
   \<and> receive_query demo_externals demo_runner 7 [1] = (None, demo_runner)
   \<and> is_initialized demo_runner
   \<and> connections demo_runner 1 = Some \<lparr>remote_app_hash = [17]\<rparr>
   \<and> get_tl_magic demo_externals [9] \<noteq> getProxyPrivateKeys_ID demo_externals
   \<and> get_tl_magic demo_externals [9] \<noteq> getWorkerPrivateKeys_ID demo_externals
   \<and> receive_query demo_externals demo_runner 1 [9]
       = (Some (Set_error ErrorCode_failure ''unknown query magic''), demo_runner)"
proof -
  have a: "\<not> is_initialized (demo_runner\<lparr>is_initialized := False\<rparr>)" by simp
  have b: "connections demo_runner 7 = None" by (simp add: demo_runner_def)
  have c: "is_initialized demo_runner" by (simp add: demo_runner_def)
  have d: "connections demo_runner 1 = Some \<lparr>remote_app_hash = [17]\<rparr>"
    by (simp add: demo_runner_def)
  have e: "get_tl_magic demo_externals [9] \<noteq> getProxyPrivateKeys_ID demo_externals"
          "get_tl_magic demo_externals [9] \<noteq> getWorkerPrivateKeys_ID demo_externals"
    by (simp_all add: demo_externals_def)
  from receive_query_without_reply
         [where s = "demo_runner\<lparr>is_initialized := False\<rparr>" and cid = 1
            and ext = demo_externals and q = "[1]"]
       receive_query_without_reply
         [where s = demo_runner and cid = 7 and ext = demo_externals and q = "[1]"]
       receive_query_without_reply
         [where s = demo_runner and cid = 1 and conn = "\<lparr>remote_app_hash = [17]\<rparr>"
            and ext = demo_externals and q = "[9]"]
       a b c d e
  show ?thesis by blast
qed

section \<open>Claim C10: an empty payload reads as absence\<close>

text \<open>
  C10. Storing the empty payload writes the 64-byte signature alone, and reading it back
  gives the empty slice, which is also what reading a key without entry gives;
  \<^verbatim>\<open>custom_initialize\<close> takes either case of \<^verbatim>\<open>config\<close> as the first boot.
\<close>

theorem empty_payload_reads_as_absent:
  assumes "sign ext [] = Some sg" and "length sg = 64" and "verify_signature ext [] sg"
  shows "set_to_db ext K [] s = Inr (s\<lparr>kv := AList.update K sg (kv s)\<rparr>)
       \<and> map_of (kv (s\<lparr>kv := AList.update K sg (kv s)\<rparr>)) K = Some sg
       \<and> get_from_db ext K (s\<lparr>kv := AList.update K sg (kv s)\<rparr>) = Inr []
       \<and> get_from_db ext K (s\<lparr>kv := AList.delete K (kv s)\<rparr>) = Inr []
       \<and> custom_initialize ext now [(''config'', sg)] s
           = Inr (s\<lparr>kv := [(''config'', sg)], active_config_version := 0\<rparr>)
       \<and> custom_initialize ext now [] s = Inr (s\<lparr>kv := [], active_config_version := 0\<rparr>)"
  using assms
  by (simp add: set_to_db_def get_from_db_def update_conv' delete_conv'
      custom_initialize_def process_db_key_def split_key_def)

theorem empty_payload_reads_as_absent_witness:
  "sign demo_externals [] = Some (replicate 64 0)
   \<and> length (replicate 64 (0 :: 8 word)) = 64
   \<and> verify_signature demo_externals [] (replicate 64 0)
   \<and> set_to_db demo_externals ''config'' [] demo_runner
       = Inr (demo_runner\<lparr>kv := AList.update ''config'' (replicate 64 0) (kv demo_runner)\<rparr>)
   \<and> get_from_db demo_externals ''config''
         (demo_runner\<lparr>kv := AList.update ''config'' (replicate 64 0) (kv demo_runner)\<rparr>) = Inr []
   \<and> get_from_db demo_externals ''config''
         (demo_runner\<lparr>kv := AList.delete ''config'' (kv demo_runner)\<rparr>) = Inr []
   \<and> custom_initialize demo_externals 2000 [(''config'', replicate 64 0)] demo_runner
       = Inr (demo_runner\<lparr>kv := [(''config'', replicate 64 0)], active_config_version := 0\<rparr>)"
proof -
  have a: "sign demo_externals [] = Some (replicate 64 0)"
    by (simp add: demo_externals_def)
  have b: "length (replicate 64 (0 :: 8 word)) = 64" by simp
  have c: "verify_signature demo_externals [] (replicate 64 0)"
    by (simp add: demo_externals_def)
  from empty_payload_reads_as_absent
         [OF a b c, where K = "''config''" and s = demo_runner and now = 2000] a b c
  show ?thesis by blast
qed

end
